theory Spec2Isabelle
  imports Complex_Main "HOL-Library.Word" "HOL-Library.Signed_Division" "HOL-Library.Multiset"
begin

section \<open>Data model\<close>

text \<open>
  The C type \<^verbatim>\<open>int\<close> is a 32-bit two's complement word, read with \<open>sint\<close>.
  Return codes and exit codes (\<open>0\<close>, \<open>1\<close>, \<open>-1\<close>) are plain integers.

  The C type \<^verbatim>\<open>double\<close> has three models, each for the part of the program where it
  decides what the code does:
  \<^item> a real number, where the code only moves the numbers around or a property does not
    depend on rounding (the parsers, the controller, the initialization event, the
    footprint height);
  \<^item> \<open>c_double\<close>, a number or NaN, where a comparison decides (the validation): every
    comparison with NaN is false;
  \<^item> \<open>binary64\<close>, a number \<open>m * 2\<^sup>e\<close> with every sum and product rounded to 53
    significant bits, where the order of the operations decides (the kinetic energy).
  Infinities, overflow and subnormal numbers are in none of the three.
\<close>

type_synonym c_int = "32 word"

datatype c_double = Num real | NaN

text \<open>The C comparisons \<^verbatim>\<open><=\<close> and \<^verbatim>\<open>>\<close> and the product of two doubles.\<close>

fun dle :: "c_double \<Rightarrow> c_double \<Rightarrow> bool" where
  "dle (Num a) (Num b) = (a \<le> b)"
| "dle a b = False"

fun dgt :: "c_double \<Rightarrow> c_double \<Rightarrow> bool" where
  "dgt (Num a) (Num b) = (a > b)"
| "dgt a b = False"

fun dmul :: "c_double \<Rightarrow> c_double \<Rightarrow> c_double" where
  "dmul (Num a) (Num b) = Num (a * b)"
| "dmul a b = NaN"

text \<open>
  \<^verbatim>\<open>struct SimulationParams\<close> of \<^verbatim>\<open>params.h\<close>, with the model of \<^verbatim>\<open>double\<close> as the
  type parameter. The field \<^verbatim>\<open>char output_dir[256]\<close> is the C string it holds, of at
  most 255 characters.
\<close>

record 'd SimulationParams_of =
  CaseNo :: c_int
  We :: 'd
  Ohd :: 'd
  Ohs :: 'd
  rho_ratio :: 'd
  Ldomain :: 'd
  drop_x :: 'd
  drop_y :: 'd
  drop_radius :: 'd
  impact_velocity :: 'd
  MAXlevel :: c_int
  MINlevel :: c_int
  init_grid_level :: c_int
  fErr :: 'd
  KErr :: 'd
  VelErr :: 'd
  tmax :: 'd
  tsnap :: 'd
  output_dir :: string
  log_interval :: c_int
  outflow_x_frac :: 'd
  outflow_y_max :: 'd

type_synonym SimulationParams = "real SimulationParams_of"

text \<open>The structure as the validation sees it: every number as a double.\<close>

definition as_doubles :: "SimulationParams \<Rightarrow> c_double SimulationParams_of" where
  "as_doubles p = \<lparr>CaseNo = CaseNo p, We = Num (We p), Ohd = Num (Ohd p), Ohs = Num (Ohs p),
     rho_ratio = Num (rho_ratio p), Ldomain = Num (Ldomain p), drop_x = Num (drop_x p),
     drop_y = Num (drop_y p), drop_radius = Num (drop_radius p),
     impact_velocity = Num (impact_velocity p), MAXlevel = MAXlevel p, MINlevel = MINlevel p,
     init_grid_level = init_grid_level p, fErr = Num (fErr p), KErr = Num (KErr p),
     VelErr = Num (VelErr p), tmax = Num (tmax p), tsnap = Num (tsnap p),
     output_dir = output_dir p, log_interval = log_interval p,
     outflow_x_frac = Num (outflow_x_frac p), outflow_y_max = Num (outflow_y_max p)\<rparr>"

text \<open>
  What the program prints on the diagnostic stream (\<^verbatim>\<open>stderr\<close>), one constructor for
  each \<^verbatim>\<open>fprintf(stderr, ...)\<close> statement (or block of consecutive statements), with
  the values it formats.
\<close>

datatype diag =
    ErrCannotOpenParamFile string
  | WarnUnknownParam string nat
  | ErrInsufficientArgs
  | ErrCaseNo c_int
  | ErrWe c_double
  | ErrOhd c_double
  | ErrOhs c_double
  | ErrRhoRatio c_double
  | ErrDomainTooSmall c_double
  | ErrDropRadius c_double
  | ErrMaxLtMin c_int c_int
  | WarnHighMaxLevel c_int
  | ErrMinLevel c_int
  | ErrTolerances
  | ErrTmax c_double
  | ErrTsnap c_double c_double
  | WarnMkdir string
  | CreatedDir string
  | ErrCannotOpenLog string
  | LogOpened string
  | ErrLogNotOpen
  | StatLine c_int real real real
  | ErrParseFailed
  | Usage string
  | ErrValidationFailed
  | ParamSummary SimulationParams
  | InitFromScratch
  | RefineComplete c_int
  | DropSetupComplete real real real real
  | InitComplete
  | RestoredFromRestart

section \<open>Parameter store (\<^verbatim>\<open>params.h\<close>)\<close>

text \<open>\<^verbatim>\<open>set_default_params\<close> overwrites every field of the structure.\<close>

definition set_default_params :: "SimulationParams \<Rightarrow> SimulationParams" where
  "set_default_params p = p\<lparr>
     CaseNo := 1000,
     We := 10, Ohd := 5 / 1000, Ohs := 1 / 100000, rho_ratio := 1 / 1000,
     Ldomain := 8, drop_x := 3 / 2, drop_y := 1, drop_radius := 1, impact_velocity := - 1,
     MAXlevel := 10, MINlevel := 4, init_grid_level := 6,
     fErr := 1 / 1000, KErr := 1 / 1000000, VelErr := 1 / 100,
     tmax := 4, tsnap := 1 / 100,
     output_dir := ''results'', log_interval := 1,
     outflow_x_frac := 95 / 100, outflow_y_max := 4\<rparr>"

subsection \<open>The structured parameter file\<close>

text \<open>
  The C library's \<^verbatim>\<open>atoi\<close> and \<^verbatim>\<open>atof\<close> are parameters of the model (\<open>A\<close> and \<open>F\<close>
  below): the parsers only pass strings to them.
\<close>

type_synonym atoi_fn = "string \<Rightarrow> c_int"
type_synonym atof_fn = "string \<Rightarrow> real"

text \<open>\<^verbatim>\<open>isspace\<close> in the C locale: space, \<^verbatim>\<open>\t \n \v \f \r\<close>.\<close>

definition isspace :: "char \<Rightarrow> bool" where
  "isspace c = (c \<in> set [CHR 0x20, CHR 0x09, CHR 0x0A, CHR 0x0B, CHR 0x0C, CHR 0x0D])"

text \<open>A character buffer read as a C string ends at its first NUL byte.\<close>

definition cstring :: "string \<Rightarrow> string" where
  "cstring buf = takeWhile (\<lambda>c. c \<noteq> CHR 0x00) buf"

text \<open>
  \<^verbatim>\<open>fgets(line, sz, fp)\<close>: the stream is the text still to be read. At most
  \<open>sz - 1\<close> characters are taken, stopping after a newline; at end of file nothing is
  read and the result is \<^verbatim>\<open>NULL\<close>.
\<close>

fun fgets_take :: "nat \<Rightarrow> string \<Rightarrow> string \<times> string" where
  "fgets_take n [] = ([], [])"
| "fgets_take n (c # cs) =
     (if n = 0 then ([], c # cs)
      else if c = CHR 0x0A then ([c], cs)
      else (case fgets_take (n - 1) cs of (l, r) \<Rightarrow> (c # l, r)))"

definition fgets :: "nat \<Rightarrow> string \<Rightarrow> (string \<times> string) option" where
  "fgets sz fp = (if fp = [] then None else Some (fgets_take (sz - 1) fp))"

text \<open>
  The loop \<^verbatim>\<open>end = s + strlen(s) - 1; while (end > s && isspace(*end)) *end-- = '\0';\<close>
  It never removes the first character, and does nothing on the empty string.
\<close>

function trim_trailing :: "string \<Rightarrow> string" where
  "trim_trailing s = (if 1 < length s \<and> isspace (last s) then trim_trailing (butlast s) else s)"
  by pat_completeness auto
termination
  by (relation "measure length") auto

declare trim_trailing.simps [simp del]

text \<open>
  The chain of \<^verbatim>\<open>strcmp\<close> tests on the key. \<^verbatim>\<open>strncpy(p->output_dir, value, 255)\<close>
  copies at most 255 characters into the 256-byte field, whose last byte stays NUL.
\<close>

definition assign_param ::
  "atoi_fn \<Rightarrow> atof_fn \<Rightarrow> nat \<Rightarrow> string \<Rightarrow> string \<Rightarrow> SimulationParams \<times> diag list
     \<Rightarrow> SimulationParams \<times> diag list" where
  "assign_param A F line_num key val st = (case st of (p, err) \<Rightarrow>
     if key = ''CaseNo'' then (p\<lparr>CaseNo := A val\<rparr>, err)
     else if key = ''We'' then (p\<lparr>We := F val\<rparr>, err)
     else if key = ''Ohd'' then (p\<lparr>Ohd := F val\<rparr>, err)
     else if key = ''Ohs'' then (p\<lparr>Ohs := F val\<rparr>, err)
     else if key = ''rho_ratio'' then (p\<lparr>rho_ratio := F val\<rparr>, err)
     else if key = ''Ldomain'' then (p\<lparr>Ldomain := F val\<rparr>, err)
     else if key = ''drop_x'' then (p\<lparr>drop_x := F val\<rparr>, err)
     else if key = ''drop_y'' then (p\<lparr>drop_y := F val\<rparr>, err)
     else if key = ''drop_radius'' then (p\<lparr>drop_radius := F val\<rparr>, err)
     else if key = ''impact_velocity'' then (p\<lparr>impact_velocity := F val\<rparr>, err)
     else if key = ''MAXlevel'' then (p\<lparr>MAXlevel := A val\<rparr>, err)
     else if key = ''MINlevel'' then (p\<lparr>MINlevel := A val\<rparr>, err)
     else if key = ''init_grid_level'' then (p\<lparr>init_grid_level := A val\<rparr>, err)
     else if key = ''fErr'' then (p\<lparr>fErr := F val\<rparr>, err)
     else if key = ''KErr'' then (p\<lparr>KErr := F val\<rparr>, err)
     else if key = ''VelErr'' then (p\<lparr>VelErr := F val\<rparr>, err)
     else if key = ''tmax'' then (p\<lparr>tmax := F val\<rparr>, err)
     else if key = ''tsnap'' then (p\<lparr>tsnap := F val\<rparr>, err)
     else if key = ''output_dir'' then (p\<lparr>output_dir := take 255 val\<rparr>, err)
     else if key = ''log_interval'' then (p\<lparr>log_interval := A val\<rparr>, err)
     else if key = ''outflow_x_frac'' then (p\<lparr>outflow_x_frac := F val\<rparr>, err)
     else if key = ''outflow_y_max'' then (p\<lparr>outflow_y_max := F val\<rparr>, err)
     else (p, err @ [WarnUnknownParam key line_num]))"

text \<open>
  The body of the \<^verbatim>\<open>while (fgets(...))\<close> loop for one buffer: cut at \<^verbatim>\<open>#\<close>, skip
  leading white space, \<^verbatim>\<open>continue\<close> on an empty rest or when there is no \<^verbatim>\<open>=\<close>,
  split at the first \<^verbatim>\<open>=\<close>, trim key and value, assign.
\<close>

definition parse_line ::
  "atoi_fn \<Rightarrow> atof_fn \<Rightarrow> nat \<Rightarrow> string \<Rightarrow> SimulationParams \<times> diag list
     \<Rightarrow> SimulationParams \<times> diag list" where
  "parse_line A F line_num buf st =
    (let line = takeWhile (\<lambda>c. c \<noteq> CHR ''#'') (cstring buf);
         start = dropWhile isspace line
     in if start = [] then st
        else if CHR ''='' \<notin> set start then st
        else
          let key = trim_trailing (takeWhile (\<lambda>c. c \<noteq> CHR ''='') start);
              val = tl (dropWhile (\<lambda>c. c \<noteq> CHR ''='') start);
              val = trim_trailing (dropWhile isspace val)
          in assign_param A F line_num key val st)"

text \<open>
  The loop \<^verbatim>\<open>while (fgets(line, sizeof(line), fp)) { ... }\<close> with a 512-byte buffer:
  \<open>body\<close> is the loop body, a function of the buffer read and of the variables the loop
  changes.
\<close>

function fgets_loop :: "(string \<Rightarrow> 'a \<Rightarrow> 'a) \<Rightarrow> string \<Rightarrow> 'a \<Rightarrow> 'a" where
  "fgets_loop body fp st =
     (case fgets 512 fp of
        None \<Rightarrow> st
      | Some (buf, fp') \<Rightarrow> fgets_loop body fp' (body buf st))"
  by pat_completeness auto
termination
proof (relation "measure (\<lambda>(body, fp, st). length fp)")
  show "wf (measure (\<lambda>(body :: string \<Rightarrow> 'a \<Rightarrow> 'a, fp :: string, st :: 'a). length fp))"
    by simp
next
  fix body :: "string \<Rightarrow> 'a \<Rightarrow> 'a" and fp :: string and st :: 'a
    and x2 :: "string \<times> string" and buf fp' :: string
  assume got: "fgets 512 fp = Some x2" and x2: "(buf, fp') = x2"
  have shorter: "length (snd (fgets_take (Suc n) s)) < length s" if "s \<noteq> []" for n s
    using that
  proof (induction s arbitrary: n)
    case Nil
    then show ?case by simp
  next
    case (Cons c cs)
    show ?case
    proof (cases "c = CHR 0x0A \<or> cs = []")
      case True
      then show ?thesis by (auto split: prod.splits)
    next
      case False
      then show ?thesis
      proof (cases n)
        case 0
        with False show ?thesis by (cases cs) (auto split: prod.splits)
      next
        case (Suc m)
        with False Cons.IH [of m] show ?thesis by (auto split: prod.splits)
      qed
    qed
  qed
  from got x2 have "fp \<noteq> []" and "fp' = snd (fgets_take 511 fp)"
    by (auto simp: fgets_def split: if_splits)
  with shorter [of fp 510] have "length fp' < length fp"
    by simp
  then show "((body, fp', body buf st), (body, fp, st))
      \<in> measure (\<lambda>(body, fp, st). length fp)"
    by simp
qed

declare fgets_loop.simps [simp del]

text \<open>
  The loop body of \<^verbatim>\<open>parse_params_from_file\<close>: the variables it changes are
  \<^verbatim>\<open>line_num\<close>, the structure and the diagnostic stream.
\<close>

definition parse_body ::
  "atoi_fn \<Rightarrow> atof_fn \<Rightarrow> string \<Rightarrow> nat \<times> SimulationParams \<times> diag list
     \<Rightarrow> nat \<times> SimulationParams \<times> diag list" where
  "parse_body A F buf s = (case s of (line_num, st) \<Rightarrow>
     (line_num + 1, parse_line A F (line_num + 1) buf st))"

text \<open>
  \<^verbatim>\<open>parse_params_from_file\<close>. The file system is the function \<open>fopen_r\<close>, giving the
  text of a file that can be opened for reading. The result is the return code, the
  structure and the diagnostics printed. When the file cannot be opened the structure is
  returned as it came.
\<close>

definition parse_params_from_file ::
  "atoi_fn \<Rightarrow> atof_fn \<Rightarrow> (string \<Rightarrow> string option) \<Rightarrow> string \<Rightarrow> SimulationParams
     \<Rightarrow> int \<times> SimulationParams \<times> diag list" where
  "parse_params_from_file A F fopen_r filename p =
     (case fopen_r filename of
        None \<Rightarrow> (- 1, p, [ErrCannotOpenParamFile filename])
      | Some text \<Rightarrow>
          (case fgets_loop (parse_body A F) text (0, set_default_params p, []) of
             (line_num, p', err) \<Rightarrow> (0, p', err)))"

subsection \<open>The legacy positional arguments\<close>

text \<open>\<^verbatim>\<open>parse_params_from_cli\<close>; \<^verbatim>\<open>argc\<close> is the length of \<open>argv\<close>.\<close>

definition parse_params_from_cli ::
  "atoi_fn \<Rightarrow> atof_fn \<Rightarrow> string list \<Rightarrow> SimulationParams
     \<Rightarrow> int \<times> SimulationParams \<times> diag list" where
  "parse_params_from_cli A F argv p0 =
    (let argc = length argv;
         p = set_default_params p0
     in if argc < 7 then (- 1, p, [ErrInsufficientArgs])
        else
          let p = p\<lparr>MAXlevel := A (argv ! 1), tmax := F (argv ! 2), We := F (argv ! 3),
                     Ohd := F (argv ! 4), Ohs := F (argv ! 5), Ldomain := F (argv ! 6)\<rparr>;
              p = (if argc > 7 then p\<lparr>drop_x := F (argv ! 7)\<rparr> else p);
              p = (if argc > 8 then p\<lparr>drop_y := F (argv ! 8)\<rparr> else p);
              p = (if argc > 9 then p\<lparr>impact_velocity := F (argv ! 9)\<rparr> else p)
          in (0, p, []))"

subsection \<open>Validation\<close>

text \<open>
  \<^verbatim>\<open>validate_params\<close> starts with \<^verbatim>\<open>valid = 1\<close> and runs through a sequence of
  independent \<^verbatim>\<open>if\<close> statements, listed here in the order of the source. The state
  of that sequence is the pair of the flag and the diagnostics printed so far. A failing
  check prints and clears the flag; the one warning only prints. The tests on the
  \<^verbatim>\<open>double\<close> fields are the C comparisons, so the fields are \<open>c_double\<close>; the constant
  \<^verbatim>\<open>0\<close> is converted to a double and \<^verbatim>\<open>2.0 * drop_radius\<close> is a product of doubles.
\<close>

type_synonym vstate = "int \<times> diag list"

datatype vcheck = Fail bool diag | Warn bool diag

fun run_check :: "vstate \<Rightarrow> vcheck \<Rightarrow> vstate" where
  "run_check (valid, err) (Fail c m) = (if c then (0, err @ [m]) else (valid, err))"
| "run_check (valid, err) (Warn c m) = (if c then (valid, err @ [m]) else (valid, err))"

definition validate_params :: "c_double SimulationParams_of \<Rightarrow> vstate" where
  "validate_params p = foldl run_check (1, [])
    [ Fail (sint (CaseNo p) < 1000 \<or> sint (CaseNo p) > 9999) (ErrCaseNo (CaseNo p)),
      Fail (dle (We p) (Num 0)) (ErrWe (We p)),
      Fail (dle (Ohd p) (Num 0)) (ErrOhd (Ohd p)),
      Fail (dle (Ohs p) (Num 0)) (ErrOhs (Ohs p)),
      Fail (dle (rho_ratio p) (Num 0)) (ErrRhoRatio (rho_ratio p)),
      Fail (dle (Ldomain p) (dmul (Num 2) (drop_radius p))) (ErrDomainTooSmall (Ldomain p)),
      Fail (dle (drop_radius p) (Num 0)) (ErrDropRadius (drop_radius p)),
      Fail (sint (MAXlevel p) < sint (MINlevel p)) (ErrMaxLtMin (MAXlevel p) (MINlevel p)),
      Warn (sint (MAXlevel p) > 15) (WarnHighMaxLevel (MAXlevel p)),
      Fail (sint (MINlevel p) < 2) (ErrMinLevel (MINlevel p)),
      Fail (dle (fErr p) (Num 0) \<or> dle (KErr p) (Num 0) \<or> dle (VelErr p) (Num 0)) ErrTolerances,
      Fail (dle (tmax p) (Num 0)) (ErrTmax (tmax p)),
      Fail (dle (tsnap p) (Num 0) \<or> dgt (tsnap p) (tmax p)) (ErrTsnap (tsnap p) (tmax p)) ]"

subsection \<open>Output directory\<close>

text \<open>
  The operating system as the program sees it at start-up: which paths exist, which files
  open for reading (with their text), which directories \<^verbatim>\<open>mkdir\<close> can create and which
  files open for writing.
\<close>

record os_env =
  access_ok :: "string \<Rightarrow> bool"
  fopen_r :: "string \<Rightarrow> string option"
  stat_ok :: "string \<Rightarrow> bool"
  mkdir_ok :: "string \<Rightarrow> bool"
  fopen_w_ok :: "string \<Rightarrow> bool"

definition create_output_directory :: "os_env \<Rightarrow> string \<Rightarrow> int \<times> diag list" where
  "create_output_directory env dirname =
     (if \<not> stat_ok env dirname then
        (if \<not> mkdir_ok env dirname then (- 1, [WarnMkdir dirname])
         else (0, [CreatedDir dirname]))
      else (0, []))"

section \<open>Diagnostics (\<^verbatim>\<open>diagnostics.h\<close>)\<close>

text \<open>
  A line of the log file: the header block written when the log is opened, or one row
  \<^verbatim>\<open>iteration dt time kinetic_energy\<close>. An open \<^verbatim>\<open>FILE\<close> has the lines still in its
  buffer and the lines already written out; \<^verbatim>\<open>fprintf\<close> appends to the buffer and
  \<^verbatim>\<open>fflush\<close> writes the buffer out.
\<close>

datatype log_line = LogHeader SimulationParams | LogRecord c_int real real real

record log_file =
  buffered :: "log_line list"
  written :: "log_line list"

definition fprintf_log :: "log_file \<Rightarrow> log_line \<Rightarrow> log_file" where
  "fprintf_log fp l = fp\<lparr>buffered := buffered fp @ [l]\<rparr>"

definition fflush_log :: "log_file \<Rightarrow> log_file" where
  "fflush_log fp = fp\<lparr>buffered := [], written := written fp @ buffered fp\<rparr>"

text \<open>
  The state the controller and the recorder share: the global handle \<^verbatim>\<open>log_fp\<close>
  (\<open>None\<close> is \<^verbatim>\<open>NULL\<close>) and what has been printed on \<^verbatim>\<open>stderr\<close>.
\<close>

record world =
  log_fp :: "log_file option"
  err_out :: "diag list"

definition open_log_files :: "os_env \<Rightarrow> SimulationParams \<Rightarrow> world \<Rightarrow> int \<times> world" where
  "open_log_files env p w =
     (let intermediate_dir = output_dir p @ ''/intermediate'';
          w = w\<lparr>err_out := err_out w @ snd (create_output_directory env intermediate_dir)\<rparr>;
          log_path = output_dir p @ ''/log''
      in if \<not> fopen_w_ok env log_path then
           (- 1, w\<lparr>log_fp := None, err_out := err_out w @ [ErrCannotOpenLog log_path]\<rparr>)
         else
           let fp = \<lparr>buffered = [], written = []\<rparr>;
               fp = fprintf_log fp (LogHeader p);
               fp = fflush_log fp
           in (0, w\<lparr>log_fp := Some fp, err_out := err_out w @ [LogOpened log_path]\<rparr>))"

text \<open>
  An active cell of the engine's grid, with what \<^verbatim>\<open>foreach()\<close> gives the loop body: the
  position \<^verbatim>\<open>x\<close>, \<^verbatim>\<open>y\<close>, the size \<^verbatim>\<open>Delta\<close>, the \<^verbatim>\<open>level\<close>, and the fields
  \<^verbatim>\<open>f[]\<close>, \<^verbatim>\<open>u.x[]\<close>, \<^verbatim>\<open>u.y[]\<close>; the model of \<^verbatim>\<open>double\<close> is the type parameter. The
  field state is the list of active cells in the order of traversal.
\<close>

record 'd cell_of =
  cell_x :: 'd
  cell_y :: 'd
  cell_Delta :: 'd
  cell_level :: c_int
  cell_f :: 'd
  cell_ux :: 'd
  cell_uy :: 'd

type_synonym cell = "real cell_of"

type_synonym field_state = "cell list"

definition sq :: "real \<Rightarrow> real" where
  "sq a = a * a"

text \<open>
  \<^verbatim>\<open>calculate_kinetic_energy\<close> with the numbers as reals: the number that the record of
  \<open>write_statistics\<close> carries. The body of \<^verbatim>\<open>foreach(reduction(+:ke))\<close> adds one term
  to \<^verbatim>\<open>ke\<close>. The density \<^verbatim>\<open>rho\<close> is the engine's function of the volume fraction, a
  parameter here. The same function in double precision, where the order of the
  additions matters, is \<open>calculate_kinetic_energy64\<close> below.
\<close>

definition ke_term :: "(real \<Rightarrow> real) \<Rightarrow> cell \<Rightarrow> real" where
  "ke_term rho c =
     (let rho_local = rho (cell_f c);
          u_mag_sq = sq (cell_ux c) + sq (cell_uy c)
      in 2 * pi * cell_y c * (0.5 * rho_local * u_mag_sq) * sq (cell_Delta c))"

definition calculate_kinetic_energy :: "(real \<Rightarrow> real) \<Rightarrow> field_state \<Rightarrow> real" where
  "calculate_kinetic_energy rho cells = foldl (\<lambda>ke c. ke + ke_term rho c) 0 cells"

text \<open>
  \<^verbatim>\<open>write_statistics\<close>. C's \<^verbatim>\<open>%\<close> truncates towards zero: it is \<open>smod\<close> on the signed
  value.
\<close>

definition write_statistics ::
  "(real \<Rightarrow> real) \<Rightarrow> field_state \<Rightarrow> c_int \<Rightarrow> real \<Rightarrow> real \<Rightarrow> SimulationParams \<Rightarrow> world \<Rightarrow> world" where
  "write_statistics rho cells iter time timestep p w =
     (case log_fp w of
        None \<Rightarrow> w\<lparr>err_out := err_out w @ [ErrLogNotOpen]\<rparr>
      | Some fp \<Rightarrow>
          let ke = calculate_kinetic_energy rho cells;
              fp = fprintf_log fp (LogRecord iter timestep time ke);
              fp = fflush_log fp;
              w = w\<lparr>log_fp := Some fp\<rparr>
          in if iter = 0 \<or> sint iter smod 100 = 0
             then w\<lparr>err_out := err_out w @ [StatLine iter time timestep ke]\<rparr>
             else w)"

subsection \<open>The kinetic energy in double precision\<close>
















section \<open>The controller (\<^verbatim>\<open>dropImpact.c\<close>)\<close>

text \<open>
  What \<^verbatim>\<open>main\<close> hands to the engine before \<^verbatim>\<open>run()\<close>: the domain, the initial grid
  and the material properties. \<^verbatim>\<open>1 << init_grid_level\<close> is a left shift of the word 1
  (undefined in C for a shift count outside 0..30; no claim depends on it).
\<close>

record engine_setup =
  L0 :: real
  X0 :: real
  Y0 :: real
  init_grid :: c_int
  rho1 :: real
  mu1 :: real
  rho2 :: real
  mu2 :: real
  f_sigma :: real

definition setup_of :: "SimulationParams \<Rightarrow> engine_setup" where
  "setup_of p = \<lparr>L0 = Ldomain p, X0 = 0, Y0 = 0,
     init_grid = push_bit (unat (init_grid_level p)) 1,
     rho1 = 1, mu1 = Ohd p / sqrt (We p), rho2 = rho_ratio p, mu2 = Ohs p / sqrt (We p),
     f_sigma = 1 / We p\<rparr>"

text \<open>
  The result of \<^verbatim>\<open>main\<close>: the exit code, the shared state at exit, and the set-up with
  which the engine's scheduler loop \<^verbatim>\<open>run()\<close> was entered (\<open>None\<close> when \<^verbatim>\<open>main\<close>
  returned before calling it). The engine's \<^verbatim>\<open>run\<close> is the parameter \<open>run\<close>.
\<close>

record main_result =
  exit_code :: int
  final :: world
  scheduler :: "engine_setup option"

definition launch ::
  "(engine_setup \<Rightarrow> SimulationParams \<Rightarrow> world \<Rightarrow> world) \<Rightarrow> os_env \<Rightarrow> SimulationParams \<Rightarrow> world
     \<Rightarrow> main_result" where
  "launch run env p w =
     (case validate_params (as_doubles p) of (valid, verr) \<Rightarrow>
        let w = w\<lparr>err_out := err_out w @ verr\<rparr>
        in if valid = 0 then
             \<lparr>exit_code = 1, final = w\<lparr>err_out := err_out w @ [ErrValidationFailed]\<rparr>,
              scheduler = None\<rparr>
           else
             let setup = setup_of p;
                 w = w\<lparr>err_out := err_out w @ snd (create_output_directory env (output_dir p))\<rparr>;
                 w = snd (open_log_files env p w);
                 w = w\<lparr>err_out := err_out w @ [ParamSummary p]\<rparr>;
                 w = run setup p w
             in \<lparr>exit_code = 0, final = w, scheduler = Some setup\<rparr>)"

text \<open>
  \<^verbatim>\<open>main\<close>: \<open>params\<close> is the global structure as it is before \<^verbatim>\<open>main\<close> runs, and
  \<open>launch\<close> above is the part of \<^verbatim>\<open>main\<close> from the validation on. The parsers of this
  model give numbers (\<^verbatim>\<open>atof\<close> is a function to the reals), which the validation sees as
  doubles.
\<close>

definition main ::
  "atoi_fn \<Rightarrow> atof_fn \<Rightarrow> (engine_setup \<Rightarrow> SimulationParams \<Rightarrow> world \<Rightarrow> world) \<Rightarrow> os_env
     \<Rightarrow> string list \<Rightarrow> SimulationParams \<Rightarrow> world \<Rightarrow> main_result" where
  "main A F run env argv params w =
     (let argc = length argv
      in if argc = 2 \<and> access_ok env (argv ! 1) then
           (case parse_params_from_file A F (fopen_r env) (argv ! 1) params of
              (rc, p, err) \<Rightarrow>
                if rc \<noteq> 0 then
                  \<lparr>exit_code = 1, final = w\<lparr>err_out := err_out w @ err @ [ErrParseFailed]\<rparr>,
                   scheduler = None\<rparr>
                else launch run env p (w\<lparr>err_out := err_out w @ err\<rparr>))
         else if argc \<ge> 7 then
           (case parse_params_from_cli A F argv params of
              (rc, p, err) \<Rightarrow>
                if rc \<noteq> 0 then
                  \<lparr>exit_code = 1, final = w\<lparr>err_out := err_out w @ err\<rparr>, scheduler = None\<rparr>
                else launch run env p (w\<lparr>err_out := err_out w @ err\<rparr>))
         else
           \<lparr>exit_code = 1, final = w\<lparr>err_out := err_out w @ [Usage (concat (take 1 argv))]\<rparr>,
            scheduler = None\<rparr>)"

subsection \<open>The initialization event\<close>

text \<open>
  The engine's operations that \<^verbatim>\<open>event init\<close> calls are parameters: \<open>restore\<close> gives
  the field state of a snapshot file, or \<open>None\<close> when there is no such file (the call
  returns false); \<open>refine\<close> refines the mesh by a predicate on \<^verbatim>\<open>x\<close>, \<^verbatim>\<open>y\<close> and
  \<^verbatim>\<open>level\<close>; \<open>fraction\<close> sets the volume fraction from a level-set function of \<^verbatim>\<open>x\<close>
  and \<^verbatim>\<open>y\<close>, positive inside the primary phase.
\<close>

record sim_engine =
  restore :: "string \<Rightarrow> field_state option"
  refine :: "(real \<Rightarrow> real \<Rightarrow> c_int \<Rightarrow> bool) \<Rightarrow> field_state \<Rightarrow> field_state"
  fraction :: "(real \<Rightarrow> real \<Rightarrow> real) \<Rightarrow> field_state \<Rightarrow> field_state"

text \<open>The macro \<^verbatim>\<open>drop_distance_squared(x, y, p)\<close>.\<close>

definition drop_distance_squared :: "real \<Rightarrow> real \<Rightarrow> SimulationParams \<Rightarrow> real" where
  "drop_distance_squared x y p =
     (x - drop_x p) * (x - drop_x p) + (y - drop_y p) * (y - drop_y p)"

text \<open>The condition given to \<^verbatim>\<open>refine\<close> and the level-set function given to \<^verbatim>\<open>fraction\<close>.\<close>

definition refine_cond :: "SimulationParams \<Rightarrow> real \<Rightarrow> real \<Rightarrow> c_int \<Rightarrow> bool" where
  "refine_cond p x y level =
     (let refine_margin = 1.05;
          refine_r_sq = refine_margin * refine_margin * drop_radius p * drop_radius p
      in drop_distance_squared x y p < refine_r_sq \<and> sint level < sint (MAXlevel p))"

definition drop_levelset :: "SimulationParams \<Rightarrow> real \<Rightarrow> real \<Rightarrow> real" where
  "drop_levelset p x y = drop_radius p * drop_radius p - drop_distance_squared x y p"

text \<open>The body of the \<^verbatim>\<open>foreach()\<close> loop that sets the velocity.\<close>

definition set_velocity :: "SimulationParams \<Rightarrow> cell \<Rightarrow> cell" where
  "set_velocity p c = c\<lparr>cell_ux := impact_velocity p * cell_f c, cell_uy := 0\<rparr>"

definition init_event ::
  "sim_engine \<Rightarrow> SimulationParams \<Rightarrow> field_state \<Rightarrow> field_state \<times> diag list" where
  "init_event E p cells =
     (let restart_path = output_dir p @ ''/restart''
      in case restore E restart_path of
           None \<Rightarrow>
             let cells = refine E (refine_cond p) cells;
                 cells = fraction E (drop_levelset p) cells;
                 cells = map (set_velocity p) cells
             in (cells,
                 [InitFromScratch, RefineComplete (MAXlevel p),
                  DropSetupComplete (drop_x p) (drop_y p) (drop_radius p) (impact_velocity p),
                  InitComplete])
         | Some restored \<Rightarrow> (restored, [RestoredFromRestart]))"

text \<open>
  Modelled from the spec: the engine's scheduler, which is not part of the repository.
  It ``repeatedly advances the PDE state and fires registered callbacks at specified
  iteration/time conditions''. A run visits the iterations \<open>0, 1, 2, \<dots>\<close> at the times
  \<open>ts ! 0, ts ! 1, \<dots>\<close>, which start at 0 and increase strictly.
\<close>

definition run_times :: "real list \<Rightarrow> bool" where
  "run_times ts = (ts \<noteq> [] \<and> hd ts = 0 \<and> sorted_wrt (<) ts)"

text \<open>The condition of \<^verbatim>\<open>event init(t = 0)\<close> on the time of an iteration.\<close>

definition init_due :: "real \<Rightarrow> bool" where
  "init_due t = (t = 0)"

text \<open>
  Modelled from the spec: the scheduler fires a registered callback at the iterations
  where its condition holds; these are the iterations of a run at which it fires the
  initialization event.
\<close>

definition init_firings :: "real list \<Rightarrow> nat list" where
  "init_firings ts = filter (\<lambda>i. init_due (ts ! i)) [0..<length ts]"

section \<open>Footprint height (\<^verbatim>\<open>getFootPrint.c\<close>)\<close>

text \<open>
  The engine's interface reconstruction is a parameter: \<open>facet_normal\<close> of a cell,
  \<open>plane_alpha\<close> of a volume fraction and a normal, and \<open>facets\<close>, which returns the
  number of end points and the two end points \<^verbatim>\<open>segment[0]\<close>, \<^verbatim>\<open>segment[1]\<close>.
\<close>

record coord =
  coord_x :: real
  coord_y :: real

record vof_engine =
  facet_normal :: "cell \<Rightarrow> coord"
  plane_alpha :: "real \<Rightarrow> coord \<Rightarrow> real"
  facets :: "coord \<Rightarrow> real \<Rightarrow> int \<times> coord \<times> coord"

definition interface_cell :: "real \<Rightarrow> bool" where
  "interface_cell vof_value = (let eps = 1 / 1000000 in vof_value > eps \<and> vof_value < 1 - eps)"

definition segment_midpoint :: "real \<Rightarrow> real \<Rightarrow> real \<Rightarrow> real \<Rightarrow> real" where
  "segment_midpoint cell_center delta end0 end1 = cell_center + 0.5 * delta * (end0 + end1)"

text \<open>
  The body of \<^verbatim>\<open>foreach (reduction(max:y_max))\<close> in
  \<^verbatim>\<open>compute_maximum_interface_height\<close>, as a function of the running maximum and the cell;
  each \<^verbatim>\<open>continue\<close> leaves the maximum as it is.
\<close>

definition footprint_step :: "vof_engine \<Rightarrow> real \<Rightarrow> real \<Rightarrow> cell \<Rightarrow> real" where
  "footprint_step E x_cutoff y_max c =
     (if cell_x c \<ge> x_cutoff \<or> \<not> interface_cell (cell_f c) then y_max
      else
        let n = facet_normal E c;
            alpha = plane_alpha E (cell_f c) n
        in case facets E n alpha of (npoints, seg0, seg1) \<Rightarrow>
             if npoints \<noteq> 2 then y_max
             else
               let y_mid = segment_midpoint (cell_y c) (cell_Delta c) (coord_y seg0) (coord_y seg1)
               in if y_mid > y_max then y_mid else y_max)"

definition compute_maximum_interface_height :: "vof_engine \<Rightarrow> real \<Rightarrow> field_state \<Rightarrow> real" where
  "compute_maximum_interface_height E x_cutoff cells = foldl (footprint_step E x_cutoff) 0 cells"

section \<open>Concrete inputs\<close>

text \<open>
  The global \<^verbatim>\<open>params\<close> has static storage: before \<^verbatim>\<open>main\<close> runs every field is zero
  and the directory name is empty.
\<close>

definition zero_params :: SimulationParams where
  "zero_params = \<lparr>CaseNo = 0, We = 0, Ohd = 0, Ohs = 0, rho_ratio = 0, Ldomain = 0,
     drop_x = 0, drop_y = 0, drop_radius = 0, impact_velocity = 0,
     MAXlevel = 0, MINlevel = 0, init_grid_level = 0, fErr = 0, KErr = 0, VelErr = 0,
     tmax = 0, tsnap = 0, output_dir = [], log_interval = 0,
     outflow_x_frac = 0, outflow_y_max = 0\<rparr>"

text \<open>The legacy command line of the parity scenario.\<close>

definition legacy_argv :: "string list" where
  "legacy_argv = [''prog'', ''10'', ''4.0'', ''10'', ''5e-3'', ''1e-5'', ''8'']"

text \<open>The structured file of the parity scenario.\<close>

definition parity_file :: string where
  "parity_file =
     ''MAXlevel=10'' @ [CHR 0x0A] @ ''tmax=4.0'' @ [CHR 0x0A] @ ''We=10'' @ [CHR 0x0A] @
     ''Ohd=5e-3'' @ [CHR 0x0A] @ ''Ohs=1e-5'' @ [CHR 0x0A] @ ''Ldomain=8'' @ [CHR 0x0A]"

text \<open>
  A parameter file of one line, a comment: \<^verbatim>\<open>#\<close>, 510 times \<^verbatim>\<open>x\<close>, \<^verbatim>\<open>We=32\<close> and
  the newline.
\<close>

definition long_comment_file :: string where
  "long_comment_file = CHR ''#'' # replicate 510 (CHR ''x'') @ ''We=32'' @ [CHR 0x0A]"

text \<open>The default configuration as the validation sees it, with \<open>We\<close> not a number.\<close>

definition nan_params :: "c_double SimulationParams_of" where
  "nan_params = (as_doubles (set_default_params zero_params))\<lparr>We := NaN\<rparr>"





text \<open>
  A small field of two interface cells, one at radius 1/2 and one at radius 3/2, and a
  reconstruction that gives every cell a horizontal segment through its centre.
\<close>

definition demo_cells :: field_state where
  "demo_cells =
     [\<lparr>cell_x = 1 / 2, cell_y = 1 / 2, cell_Delta = 1, cell_level = 0,
       cell_f = 1 / 2, cell_ux = - 1, cell_uy = 0\<rparr>,
      \<lparr>cell_x = 3 / 2, cell_y = 3 / 2, cell_Delta = 1, cell_level = 0,
       cell_f = 1 / 2, cell_ux = 2, cell_uy = 1\<rparr>]"

definition demo_vof :: vof_engine where
  "demo_vof = \<lparr>facet_normal = (\<lambda>c. \<lparr>coord_x = 0, coord_y = 1\<rparr>),
     plane_alpha = (\<lambda>v n. 0),
     facets = (\<lambda>n alpha. (2, \<lparr>coord_x = - 1 / 2, coord_y = 0\<rparr>, \<lparr>coord_x = 1 / 2, coord_y = 0\<rparr>))\<rparr>"

text \<open>
  A file system with one parameter file, \<^verbatim>\<open>case.params\<close>, of the given text.
\<close>

definition one_file :: "string \<Rightarrow> string \<Rightarrow> string option" where
  "one_file contents name = (if name = ''case.params'' then Some contents else None)"

text \<open>
  A start-up in which the (empty) parameter file is readable, every directory exists and
  no file can be opened for writing; the state before \<^verbatim>\<open>main\<close>.
\<close>

definition log_fail_env :: os_env where
  "log_fail_env = \<lparr>access_ok = (\<lambda>path. path = ''case.params''), fopen_r = one_file [],
     stat_ok = (\<lambda>path. True), mkdir_ok = (\<lambda>path. False), fopen_w_ok = (\<lambda>path. False)\<rparr>"

definition initial_world :: world where
  "initial_world = \<lparr>log_fp = None, err_out = []\<rparr>"

text \<open>
  Two engines for the initialization event: both leave the mesh as it is on \<open>refine\<close>
  and set the volume fraction to 1 where the level-set function is positive at the cell
  centre and to 0 elsewhere; the first has no snapshot, the second has one at
  \<^verbatim>\<open>results/restart\<close>.
\<close>

definition fresh_engine :: sim_engine where
  "fresh_engine = \<lparr>restore = (\<lambda>path. None), refine = (\<lambda>cond cells. cells),
     fraction = (\<lambda>phi cells.
       map (\<lambda>c. c\<lparr>cell_f := (if 0 < phi (cell_x c) (cell_y c) then 1 else 0)\<rparr>) cells)\<rparr>"

definition restart_engine :: sim_engine where
  "restart_engine = fresh_engine\<lparr>restore :=
     (\<lambda>path. if path = ''results/restart'' then Some demo_cells else None)\<rparr>"

section \<open>Properties of the validation\<close>

lemma run_check_valid [simp]:
  "(fst (run_check s (Fail c m)) = 1) = (fst s = 1 \<and> \<not> c)"
  "(fst (run_check s (Warn c m)) = 1) = (fst s = 1)"
  by (cases s; auto)+

lemma run_check_reports [simp]:
  "(d \<in> set (snd (run_check s (Fail c m)))) = (c \<and> d = m \<or> d \<in> set (snd s))"
  "(d \<in> set (snd (run_check s (Warn c m)))) = (c \<and> d = m \<or> d \<in> set (snd s))"
  by (cases s; auto)+

text \<open>
  On a structure whose fields are all numbers, the result is 1 exactly when every
  invariant holds, and each diagnostic is printed exactly when its invariant is
  violated, whatever the other invariants do.
\<close>

lemma validate_params_numbers:
  "(fst (validate_params (as_doubles p)) = 1) =
   (1000 \<le> sint (CaseNo p) \<and> sint (CaseNo p) \<le> 9999 \<and>
    0 < We p \<and> 0 < Ohd p \<and> 0 < Ohs p \<and> 0 < rho_ratio p \<and>
    2 * drop_radius p < Ldomain p \<and> 0 < drop_radius p \<and>
    sint (MINlevel p) \<le> sint (MAXlevel p) \<and> 2 \<le> sint (MINlevel p) \<and>
    0 < fErr p \<and> 0 < KErr p \<and> 0 < VelErr p \<and>
    0 < tmax p \<and> 0 < tsnap p \<and> tsnap p \<le> tmax p)"
  unfolding validate_params_def
  by (simp add: as_doubles_def not_less not_le del: run_check.simps)

lemma validate_params_numbers_reports:
  "(ErrCaseNo (CaseNo p) \<in> set (snd (validate_params (as_doubles p)))) =
     (\<not> (1000 \<le> sint (CaseNo p) \<and> sint (CaseNo p) \<le> 9999))"
  "(ErrWe (Num (We p)) \<in> set (snd (validate_params (as_doubles p)))) = (\<not> 0 < We p)"
  "(ErrOhd (Num (Ohd p)) \<in> set (snd (validate_params (as_doubles p)))) = (\<not> 0 < Ohd p)"
  "(ErrOhs (Num (Ohs p)) \<in> set (snd (validate_params (as_doubles p)))) = (\<not> 0 < Ohs p)"
  "(ErrRhoRatio (Num (rho_ratio p)) \<in> set (snd (validate_params (as_doubles p)))) =
     (\<not> 0 < rho_ratio p)"
  "(ErrDomainTooSmall (Num (Ldomain p)) \<in> set (snd (validate_params (as_doubles p)))) =
     (\<not> 2 * drop_radius p < Ldomain p)"
  "(ErrDropRadius (Num (drop_radius p)) \<in> set (snd (validate_params (as_doubles p)))) =
     (\<not> 0 < drop_radius p)"
  "(ErrMaxLtMin (MAXlevel p) (MINlevel p) \<in> set (snd (validate_params (as_doubles p)))) =
     (\<not> sint (MINlevel p) \<le> sint (MAXlevel p))"
  "(ErrMinLevel (MINlevel p) \<in> set (snd (validate_params (as_doubles p)))) =
     (\<not> 2 \<le> sint (MINlevel p))"
  "(ErrTolerances \<in> set (snd (validate_params (as_doubles p)))) =
     (\<not> (0 < fErr p \<and> 0 < KErr p \<and> 0 < VelErr p))"
  "(ErrTmax (Num (tmax p)) \<in> set (snd (validate_params (as_doubles p)))) = (\<not> 0 < tmax p)"
  "(ErrTsnap (Num (tsnap p)) (Num (tmax p)) \<in> set (snd (validate_params (as_doubles p)))) =
     (\<not> (0 < tsnap p \<and> tsnap p \<le> tmax p))"
  unfolding validate_params_def
  by (simp_all add: as_doubles_def not_less not_le del: run_check.simps)

text \<open>
  Claim C2 says that, for every parameter structure, the validation reports the
  configuration valid if and only if all the invariants hold, among them that \<open>We\<close> is
  strictly positive. The code does not do that for a structure that holds a NaN: every
  test of \<^verbatim>\<open>validate_params\<close> is a comparison \<^verbatim>\<open><=\<close> or \<^verbatim>\<open>>\<close> that reports a
  violation when it is true, and every comparison with NaN is false. With the default
  configuration and \<open>We\<close> not a number (what \<^verbatim>\<open>atof\<close> gives for the file line
  \<^verbatim>\<open>We=nan\<close>), \<open>We\<close> is not greater than 0, and \<^verbatim>\<open>validate_params\<close> returns 1 and
  prints nothing.
\<close>

theorem validate_params_accepts_nan:
  "We nan_params = NaN \<and>
   \<not> dgt (We nan_params) (Num 0) \<and>
   validate_params nan_params = (1, [])"
  by (simp add: validate_params_def nan_params_def as_doubles_def set_default_params_def
      zero_params_def)

section \<open>Properties of the diagnostics\<close>

lemma smod_100_iff: "((k::int) smod 100 = 0) = (100 dvd k)"
proof -
  have "k smod 100 = sgn k * (\<bar>k\<bar> mod 100)"
    by (simp add: signed_modulo_int_def)
  moreover have "(sgn k * (\<bar>k\<bar> mod 100) = 0) = (k = 0 \<or> \<bar>k\<bar> mod 100 = 0)"
    by (simp add: sgn_0_0)
  moreover have "(\<bar>k\<bar> mod 100 = 0) = (100 dvd k)"
    by (simp add: dvd_eq_mod_eq_0 [symmetric])
  ultimately show ?thesis
    by auto
qed

subsection \<open>The kinetic energy in double precision\<close>

















subsection \<open>The statistics record\<close>

text \<open>
  Claim C5. When the log is open, one call of \<open>write_statistics\<close> computes the kinetic
  energy, appends exactly one record (iteration, timestep, time, kinetic energy) to the
  log and flushes it, so that the buffer is empty and the record is the last line
  written; the record is mirrored on the diagnostic stream if and only if the iteration
  is 0 or a multiple of 100. The log gets its record whether or not the mirror is
  printed.
\<close>

theorem write_statistics_record:
  "log_fp w = Some fp \<Longrightarrow>
     log_fp (write_statistics rho cells iter time timestep p w) =
       Some \<lparr>buffered = [], written = written fp @ buffered fp @
               [LogRecord iter timestep time (calculate_kinetic_energy rho cells)]\<rparr> \<and>
     err_out (write_statistics rho cells iter time timestep p w) =
       err_out w @ (if sint iter = 0 \<or> 100 dvd sint iter
                    then [StatLine iter time timestep (calculate_kinetic_energy rho cells)] else [])"
  by (simp add: write_statistics_def Let_def fprintf_log_def fflush_log_def smod_100_iff)


text \<open>Iteration 200 is logged and mirrored; iteration 250 is logged and not mirrored.\<close>

theorem write_statistics_record_witness:
  "log_fp \<lparr>log_fp = Some \<lparr>buffered = [], written = [LogHeader zero_params]\<rparr>, err_out = []\<rparr> =
     Some \<lparr>buffered = [], written = [LogHeader zero_params]\<rparr> \<and>
   write_statistics (\<lambda>v. v) demo_cells 200 2 (1 / 100) zero_params
       \<lparr>log_fp = Some \<lparr>buffered = [], written = [LogHeader zero_params]\<rparr>, err_out = []\<rparr> =
     \<lparr>log_fp = Some \<lparr>buffered = [],
        written = [LogHeader zero_params, LogRecord 200 (1 / 100) 2 (calculate_kinetic_energy (\<lambda>v. v) demo_cells)]\<rparr>,
      err_out = [StatLine 200 2 (1 / 100) (calculate_kinetic_energy (\<lambda>v. v) demo_cells)]\<rparr> \<and>
   write_statistics (\<lambda>v. v) demo_cells 250 2 (1 / 100) zero_params
       \<lparr>log_fp = Some \<lparr>buffered = [], written = [LogHeader zero_params]\<rparr>, err_out = []\<rparr> =
     \<lparr>log_fp = Some \<lparr>buffered = [],
        written = [LogHeader zero_params, LogRecord 250 (1 / 100) 2 (calculate_kinetic_energy (\<lambda>v. v) demo_cells)]\<rparr>,
      err_out = []\<rparr>"
  using write_statistics_record [of "\<lparr>log_fp = Some \<lparr>buffered = [], written = [LogHeader zero_params]\<rparr>, err_out = []\<rparr>"
      "\<lparr>buffered = [], written = [LogHeader zero_params]\<rparr>" "\<lambda>v. v" demo_cells 200 2 "1 / 100" zero_params]
    write_statistics_record [of "\<lparr>log_fp = Some \<lparr>buffered = [], written = [LogHeader zero_params]\<rparr>, err_out = []\<rparr>"
      "\<lparr>buffered = [], written = [LogHeader zero_params]\<rparr>" "\<lambda>v. v" demo_cells 250 2 "1 / 100" zero_params]
  by (simp add: write_statistics_def Let_def fprintf_log_def fflush_log_def)

section \<open>Properties of the legacy argument parser\<close>

text \<open>
  Claim C9. After a successful parse of the legacy arguments (return code 0, which needs
  at least 7 tokens), the fields \<open>CaseNo\<close>, \<open>rho_ratio\<close>, \<open>drop_radius\<close>, \<open>MINlevel\<close>,
  \<open>init_grid_level\<close>, \<open>fErr\<close>, \<open>KErr\<close>, \<open>VelErr\<close>, \<open>tsnap\<close>, \<open>output_dir\<close>,
  \<open>log_interval\<close>, \<open>outflow_x_frac\<close> and \<open>outflow_y_max\<close> have their default values;
  the six required fields come from the arguments 1 to 6; \<open>drop_x\<close>, \<open>drop_y\<close> and
  \<open>impact_velocity\<close> come from the arguments 7, 8 and 9 when present and have their
  default values otherwise.
\<close>

theorem parse_params_from_cli_frame:
  "fst (parse_params_from_cli A F argv p0) = 0 \<Longrightarrow>
   p = fst (snd (parse_params_from_cli A F argv p0)) \<Longrightarrow>
     7 \<le> length argv \<and>
     CaseNo p = 1000 \<and> rho_ratio p = 1 / 1000 \<and> drop_radius p = 1 \<and> MINlevel p = 4 \<and>
     init_grid_level p = 6 \<and> fErr p = 1 / 1000 \<and> KErr p = 1 / 1000000 \<and> VelErr p = 1 / 100 \<and>
     tsnap p = 1 / 100 \<and> output_dir p = ''results'' \<and> log_interval p = 1 \<and>
     outflow_x_frac p = 95 / 100 \<and> outflow_y_max p = 4 \<and>
     MAXlevel p = A (argv ! 1) \<and> tmax p = F (argv ! 2) \<and> We p = F (argv ! 3) \<and>
     Ohd p = F (argv ! 4) \<and> Ohs p = F (argv ! 5) \<and> Ldomain p = F (argv ! 6) \<and>
     drop_x p = (if 7 < length argv then F (argv ! 7) else 3 / 2) \<and>
     drop_y p = (if 8 < length argv then F (argv ! 8) else 1) \<and>
     impact_velocity p = (if 9 < length argv then F (argv ! 9) else - 1)"
proof -
  assume ok: "fst (parse_params_from_cli A F argv p0) = 0"
    and p: "p = fst (snd (parse_params_from_cli A F argv p0))"
  from ok have len: "7 \<le> length argv"
    by (simp add: parse_params_from_cli_def Let_def split: if_splits)
  with p show ?thesis
    by (simp add: parse_params_from_cli_def Let_def set_default_params_def)
qed

text \<open>The seven-token command line of the parity scenario.\<close>

theorem parse_params_from_cli_frame_witness:
  "\<forall>A F.
     fst (parse_params_from_cli A F legacy_argv zero_params) = 0 \<and>
     CaseNo (fst (snd (parse_params_from_cli A F legacy_argv zero_params))) = 1000 \<and>
     MINlevel (fst (snd (parse_params_from_cli A F legacy_argv zero_params))) = 4 \<and>
     output_dir (fst (snd (parse_params_from_cli A F legacy_argv zero_params))) = ''results'' \<and>
     drop_x (fst (snd (parse_params_from_cli A F legacy_argv zero_params))) = 3 / 2 \<and>
     MAXlevel (fst (snd (parse_params_from_cli A F legacy_argv zero_params))) = A ''10'' \<and>
     Ldomain (fst (snd (parse_params_from_cli A F legacy_argv zero_params))) = F ''8''"
proof (intro allI)
  fix A :: atoi_fn and F :: atof_fn
  have ok: "fst (parse_params_from_cli A F legacy_argv zero_params) = 0"
    by (simp add: parse_params_from_cli_def legacy_argv_def)
  from parse_params_from_cli_frame [OF ok refl] ok
  show "fst (parse_params_from_cli A F legacy_argv zero_params) = 0 \<and>
     CaseNo (fst (snd (parse_params_from_cli A F legacy_argv zero_params))) = 1000 \<and>
     MINlevel (fst (snd (parse_params_from_cli A F legacy_argv zero_params))) = 4 \<and>
     output_dir (fst (snd (parse_params_from_cli A F legacy_argv zero_params))) = ''results'' \<and>
     drop_x (fst (snd (parse_params_from_cli A F legacy_argv zero_params))) = 3 / 2 \<and>
     MAXlevel (fst (snd (parse_params_from_cli A F legacy_argv zero_params))) = A ''10'' \<and>
     Ldomain (fst (snd (parse_params_from_cli A F legacy_argv zero_params))) = F ''8''"
    by (simp add: legacy_argv_def)
qed

section \<open>Properties of the footprint height\<close>

lemma footprint_step_mono:
  "c1 \<le> c2 \<Longrightarrow> a \<le> b \<Longrightarrow> footprint_step E c1 a c \<le> footprint_step E c2 b c"
  by (auto simp: footprint_step_def Let_def split: prod.splits)

lemma footprint_fold_mono:
  "c1 \<le> c2 \<Longrightarrow> a \<le> b \<Longrightarrow>
     foldl (footprint_step E c1) a cells \<le> foldl (footprint_step E c2) b cells"
proof (induction cells arbitrary: a b)
  case Nil
  then show ?case by simp
next
  case (Cons c cells)
  from Cons.prems have "footprint_step E c1 a c \<le> footprint_step E c2 b c"
    by (rule footprint_step_mono)
  with Cons.prems(1) show ?case
    by (simp add: Cons.IH)
qed

lemma footprint_step_ge: "a \<le> footprint_step E x_cutoff a c"
  by (auto simp: footprint_step_def Let_def split: prod.splits)

lemma footprint_fold_ge: "a \<le> foldl (footprint_step E x_cutoff) a cells"
proof (induction cells arbitrary: a)
  case Nil
  then show ?case by simp
next
  case (Cons c cells)
  have "a \<le> footprint_step E x_cutoff a c"
    by (rule footprint_step_ge)
  also have "\<dots> \<le> foldl (footprint_step E x_cutoff) (footprint_step E x_cutoff a c) cells"
    by (rule Cons.IH)
  finally show ?case by simp
qed

lemma footprint_step_skip:
  "\<not> (cell_x c < x_cutoff \<and> interface_cell (cell_f c) \<and>
      fst (facets E (facet_normal E c) (plane_alpha E (cell_f c) (facet_normal E c))) = 2)
   \<Longrightarrow> footprint_step E x_cutoff a c = a"
  by (auto simp: footprint_step_def Let_def split: prod.splits)

lemma footprint_fold_skip:
  "\<forall>c \<in> set cells. \<not> (cell_x c < x_cutoff \<and> interface_cell (cell_f c) \<and>
      fst (facets E (facet_normal E c) (plane_alpha E (cell_f c) (facet_normal E c))) = 2)
   \<Longrightarrow> foldl (footprint_step E x_cutoff) a cells = a"
  by (induction cells arbitrary: a) (simp_all add: footprint_step_skip)

text \<open>
  Claim C6. For a fixed field and reconstruction, the maximum interface height is
  monotonically non-decreasing in the cutoff radius: for cutoffs \<open>c1 \<le> c2\<close> the maximum
  over the window \<open>x < c1\<close> is at most the maximum over the window \<open>x < c2\<close>.
\<close>

theorem footprint_height_monotone:
  "c1 \<le> c2 \<Longrightarrow>
     compute_maximum_interface_height E c1 cells \<le> compute_maximum_interface_height E c2 cells"
  unfolding compute_maximum_interface_height_def
  by (rule footprint_fold_mono) simp_all

text \<open>With cutoff 1 only the inner cell counts; with cutoff 2 both do.\<close>

theorem footprint_height_monotone_witness:
  "(1::real) \<le> 2 \<and>
   compute_maximum_interface_height demo_vof 1 demo_cells = 1 / 2 \<and>
   compute_maximum_interface_height demo_vof 2 demo_cells = 3 / 2 \<and>
   compute_maximum_interface_height demo_vof 1 demo_cells
     \<le> compute_maximum_interface_height demo_vof 2 demo_cells"
  using footprint_height_monotone [of 1 2 demo_vof demo_cells]
  by (simp add: compute_maximum_interface_height_def footprint_step_def demo_cells_def
      demo_vof_def interface_cell_def segment_midpoint_def)

text \<open>
  Claim C10. The maximum interface height is never negative, and it is exactly 0 when no
  cell with radial position strictly below the cutoff is an interface cell (volume
  fraction strictly between \<open>10\<^sup>-\<^sup>6\<close> and \<open>1 - 10\<^sup>-\<^sup>6\<close>) with a two-point
  reconstruction.
\<close>

theorem footprint_height_nonneg:
  "0 \<le> compute_maximum_interface_height E x_cutoff cells \<and>
   ((\<forall>c \<in> set cells. \<not> (cell_x c < x_cutoff \<and> interface_cell (cell_f c) \<and>
        fst (facets E (facet_normal E c) (plane_alpha E (cell_f c) (facet_normal E c))) = 2))
    \<longrightarrow> compute_maximum_interface_height E x_cutoff cells = 0) \<and>
   interface_cell v = (1 / 1000000 < v \<and> v < 1 - 1 / 1000000)"
  unfolding compute_maximum_interface_height_def
  by (simp add: footprint_fold_ge footprint_fold_skip interface_cell_def)

text \<open>With cutoff 1/4 no cell of the demonstration field is in the window.\<close>

theorem footprint_height_nonneg_witness:
  "compute_maximum_interface_height demo_vof (1 / 4) demo_cells = 0 \<and>
   0 \<le> compute_maximum_interface_height demo_vof 2 demo_cells"
proof -
  have outside: "\<forall>c \<in> set demo_cells. \<not> (cell_x c < 1 / 4 \<and> interface_cell (cell_f c) \<and>
        fst (facets demo_vof (facet_normal demo_vof c)
               (plane_alpha demo_vof (cell_f c) (facet_normal demo_vof c))) = 2)"
    by (simp add: demo_cells_def)
  with footprint_height_nonneg [of demo_vof "1 / 4" demo_cells 0]
  have "compute_maximum_interface_height demo_vof (1 / 4) demo_cells = 0"
    by blast
  moreover from footprint_height_nonneg [of demo_vof 2 demo_cells 0]
  have "0 \<le> compute_maximum_interface_height demo_vof 2 demo_cells"
    by blast
  ultimately show ?thesis
    by (rule conjI)
qed

section \<open>Properties of the parameter file parser\<close>

text \<open>The trimming loop keeps the first character and removes the trailing white space.\<close>

lemma trim_trailing_closed:
  "trim_trailing s = (case s of [] \<Rightarrow> [] | c # cs \<Rightarrow> c # rev (dropWhile isspace (rev cs)))"
proof (induction s rule: trim_trailing.induct)
  case (1 s)
  show ?case
  proof (cases "1 < length s \<and> isspace (last s)")
    case True
    then obtain c cs where s: "s = c # cs" and cs: "cs \<noteq> []"
      by (cases s) auto
    from True s cs have sp: "isspace (last cs)"
      by simp
    from cs have "rev cs = last cs # rev (butlast cs)"
      by (simp add: rev_eq_Cons_iff)
    then have "dropWhile isspace (rev cs) = dropWhile isspace (last cs # rev (butlast cs))"
      by (rule arg_cong)
    with sp have "dropWhile isspace (rev cs) = dropWhile isspace (rev (butlast cs))"
      by (simp only: dropWhile.simps if_True)
    moreover from True have "trim_trailing s = trim_trailing (butlast s)"
      by (subst trim_trailing.simps) simp
    moreover from s cs have "butlast s = c # butlast cs"
      by simp
    ultimately show ?thesis
      using "1.IH" [OF True] s by simp
  next
    case False
    then have eq: "trim_trailing s = s"
      by (subst trim_trailing.simps) auto
    show ?thesis
    proof (cases s)
      case Nil
      with eq show ?thesis by simp
    next
      case (Cons c cs)
      show ?thesis
      proof (cases "cs = []")
        case True
        with eq Cons show ?thesis by simp
      next
        case nonempty: False
        with False Cons have "\<not> isspace (last cs)"
          by simp
        then have "dropWhile isspace (rev cs) = rev cs"
          by (simp add: dropWhile_eq_self_iff hd_rev)
        with eq Cons show ?thesis by simp
      qed
    qed
  qed
qed

text \<open>\<^verbatim>\<open>fgets\<close> on a text that begins with \<open>n\<close> characters without a newline.\<close>

lemma fgets_take_prefix:
  "CHR 0x0A \<notin> set xs \<Longrightarrow> fgets_take (length xs) (xs @ ys) = (xs, ys)"
proof (induction xs)
  case Nil
  then show ?case by (cases ys) simp_all
next
  case (Cons x xs)
  then show ?case by auto
qed

text \<open>The return code is \<open>-1\<close> exactly when the file cannot be opened, and 0 otherwise.\<close>

lemma parse_params_from_file_code:
  "(fst (parse_params_from_file A F fs filename p) = - 1) = (fs filename = None)"
  "(fst (parse_params_from_file A F fs filename p) = 0) = (fs filename \<noteq> None)"
  by (auto simp: parse_params_from_file_def split: option.splits prod.splits)

text \<open>
  Claim C3 says that, for every readable file, everything after a \<^verbatim>\<open>#\<close> on a line is
  stripped, and the header of \<^verbatim>\<open>parse_params_from_file\<close> gives the same format
  (\<^verbatim>\<open>key=value\<close>, one per line, \<^verbatim>\<open>#\<close> for comments). The code does not do that for a
  line of more than 511 characters: \<^verbatim>\<open>fgets\<close> delivers such a line in pieces of 511
  characters, and the loop treats each piece as a line of its own. The file of the one
  line \<^verbatim>\<open>#xxx...xWe=32\<close> (510 times \<^verbatim>\<open>x\<close>) is a comment from its first character to
  its end, yet the parser sets \<open>We\<close> from the text \<^verbatim>\<open>32\<close>.
\<close>

theorem parse_params_from_file_long_comment:
  "takeWhile (\<lambda>c. c \<noteq> CHR 0x0A) long_comment_file =
     CHR ''#'' # replicate 510 (CHR ''x'') @ ''We=32'' \<and>
   parse_params_from_file A F (one_file long_comment_file) ''case.params'' zero_params =
     (0, (set_default_params zero_params)\<lparr>We := F ''32''\<rparr>, [])"
proof -
  define comment where "comment = CHR ''#'' # replicate 510 (CHR ''x'')"
  have whole: "long_comment_file = comment @ ''We=32'' @ [CHR 0x0A]"
    by (simp add: long_comment_file_def comment_def)
  have no_newline: "CHR 0x0A \<notin> set comment"
    by (simp add: comment_def)
  have "length comment = 511"
    by (simp add: comment_def)
  with fgets_take_prefix [OF no_newline, of "''We=32'' @ [CHR 0x0A]"]
  have first: "fgets 512 long_comment_file = Some (comment, ''We=32'' @ [CHR 0x0A])"
    by (simp add: fgets_def whole comment_def)
  have skipped: "parse_body A F comment (0, set_default_params zero_params, []) =
      (1, set_default_params zero_params, [])"
    by (simp add: parse_body_def parse_line_def cstring_def comment_def Let_def)
  have rest: "fgets_loop (parse_body A F) (''We=32'' @ [CHR 0x0A])
      (1, set_default_params zero_params, []) =
      (2, (set_default_params zero_params)\<lparr>We := F ''32''\<rparr>, [])"
    by (simp add: fgets_loop.simps fgets_def parse_body_def parse_line_def cstring_def
        isspace_def trim_trailing_closed assign_param_def Let_def)
  have "fgets_loop (parse_body A F) long_comment_file (0, set_default_params zero_params, []) =
      (2, (set_default_params zero_params)\<lparr>We := F ''32''\<rparr>, [])"
    by (subst fgets_loop.simps) (simp only: first skipped rest option.case prod.case)
  then have parsed:
    "parse_params_from_file A F (one_file long_comment_file) ''case.params'' zero_params =
       (0, (set_default_params zero_params)\<lparr>We := F ''32''\<rparr>, [])"
    by (simp add: parse_params_from_file_def one_file_def)
  have "takeWhile (\<lambda>c. c \<noteq> CHR 0x0A) long_comment_file =
      CHR ''#'' # replicate 510 (CHR ''x'') @ ''We=32''"
    by (simp add: long_comment_file_def takeWhile_append)
  with parsed show ?thesis
    by (rule conjI [rotated])
qed

section \<open>File and command-line parity\<close>

lemma set_default_params_const: "set_default_params p = set_default_params q"
  by (cases p, cases q) (simp add: set_default_params_def)

text \<open>
  Claim C8. The legacy token list \<open>[prog, 10, 4.0, 10, 5e-3, 1e-5, 8]\<close> parses to the
  same result as the structured file that sets \<open>MAXlevel=10\<close>, \<open>tmax=4.0\<close>, \<open>We=10\<close>,
  \<open>Ohd=5e-3\<close>, \<open>Ohs=1e-5\<close>, \<open>Ldomain=8\<close>: the same return code 0, the same structure
  in every field (the six fields converted from the same strings, all others at their
  defaults) and no diagnostics, whatever \<^verbatim>\<open>atoi\<close> and \<^verbatim>\<open>atof\<close> compute and whatever the
  structures held before.
\<close>

theorem cli_file_parity:
  "parse_params_from_cli A F legacy_argv p0 =
     parse_params_from_file A F (one_file parity_file) ''case.params'' p1 \<and>
   parse_params_from_cli A F legacy_argv p0 =
     (0, (set_default_params p0)\<lparr>MAXlevel := A ''10'', tmax := F ''4.0'', We := F ''10'',
          Ohd := F ''5e-3'', Ohs := F ''1e-5'', Ldomain := F ''8''\<rparr>, [])"
proof -
  have cli: "parse_params_from_cli A F legacy_argv p0 =
     (0, (set_default_params p0)\<lparr>MAXlevel := A ''10'', tmax := F ''4.0'', We := F ''10'',
          Ohd := F ''5e-3'', Ohs := F ''1e-5'', Ldomain := F ''8''\<rparr>, [])"
    by (simp add: parse_params_from_cli_def legacy_argv_def Let_def)
  have "parse_params_from_file A F (one_file parity_file) ''case.params'' p1 =
     (0, (set_default_params p1)\<lparr>MAXlevel := A ''10'', tmax := F ''4.0'', We := F ''10'',
          Ohd := F ''5e-3'', Ohs := F ''1e-5'', Ldomain := F ''8''\<rparr>, [])"
    by (simp add: parse_params_from_file_def one_file_def parity_file_def fgets_loop.simps
        fgets_def parse_body_def parse_line_def cstring_def isspace_def trim_trailing_closed
        assign_param_def Let_def)
  with cli set_default_params_const [of p0 p1] show ?thesis
    by simp
qed

section \<open>Properties of the controller\<close>

lemma launch_valid:
  "fst (validate_params (as_doubles p)) \<noteq> 0 \<Longrightarrow>
     exit_code (launch run env p w) = 0 \<and> scheduler (launch run env p w) = Some (setup_of p)"
  by (cases "validate_params (as_doubles p)") (simp add: launch_def Let_def)

text \<open>
  Claim C1 says that a log file that cannot be opened ends the program with a non-zero
  exit code before the scheduler loop is entered. The code does not do that:
  \<open>open_log_files\<close> reports the failure with \<open>-1\<close>, but \<^verbatim>\<open>main\<close> drops the return
  value. With a readable (empty) parameter file and a log file that cannot be opened,
  \<^verbatim>\<open>main\<close> enters \<^verbatim>\<open>run()\<close> and returns 0.
\<close>

theorem main_ignores_log_failure:
  "fst (open_log_files log_fail_env (set_default_params zero_params) initial_world) = - 1 \<and>
   exit_code (main A F run log_fail_env [''dropImpact'', ''case.params''] zero_params initial_world) = 0 \<and>
   scheduler (main A F run log_fail_env [''dropImpact'', ''case.params''] zero_params initial_world) =
     Some (setup_of (set_default_params zero_params))"
proof -
  have parsed: "parse_params_from_file A F (one_file []) ''case.params'' zero_params =
      (0, set_default_params zero_params, [])"
    by (simp add: parse_params_from_file_def one_file_def fgets_loop.simps fgets_def)
  have valid: "fst (validate_params (as_doubles (set_default_params zero_params))) \<noteq> 0"
    by (simp add: validate_params_def as_doubles_def set_default_params_def zero_params_def)
  have "fst (open_log_files log_fail_env (set_default_params zero_params) initial_world) = - 1"
    by (simp add: open_log_files_def log_fail_env_def Let_def)
  moreover have "main A F run log_fail_env [''dropImpact'', ''case.params''] zero_params initial_world =
      launch run log_fail_env (set_default_params zero_params) initial_world"
    using parsed by (simp add: main_def log_fail_env_def initial_world_def)
  ultimately show ?thesis
    using launch_valid [OF valid] by simp
qed

text \<open>In a run, only iteration 0 has time 0.\<close>

lemma init_fires_once:
  assumes "run_times ts"
  shows "init_firings ts = [0]"
proof -
  from assms obtain rest where ts: "ts = 0 # rest" and pos: "\<forall>t \<in> set rest. 0 < t"
    by (cases ts) (auto simp: run_times_def)
  have "[0..<Suc (length rest)] = 0 # map Suc [0..<length rest]"
    by (simp only: map_Suc_upt upt_conv_Cons [OF zero_less_Suc])
  then have "[0..<length ts] = 0 # map Suc [0..<length rest]"
    by (simp add: ts)
  moreover have "filter (\<lambda>i. init_due (ts ! i)) (map Suc [0..<length rest]) = []"
  proof -
    have later: "\<not> init_due (rest ! i)" if "i < length rest" for i
    proof -
      from that have "rest ! i \<in> set rest"
        by (rule nth_mem)
      with pos have "0 < rest ! i"
        by blast
      then show ?thesis
        by (simp add: init_due_def)
    qed
    have "filter (\<lambda>i. init_due (ts ! i)) (map Suc [0..<length rest]) =
        map Suc (filter (\<lambda>i. init_due (rest ! i)) [0..<length rest])"
      by (simp only: filter_map comp_def ts nth_Cons_Suc)
    also have "filter (\<lambda>i. init_due (rest ! i)) [0..<length rest] = []"
      using later by (simp add: filter_empty_conv)
    finally show ?thesis
      by simp
  qed
  ultimately show ?thesis
    by (simp add: init_firings_def init_due_def ts)
qed

lemma refine_cond_eq:
  "refine_cond p x y l =
     ((x - drop_x p)\<^sup>2 + (y - drop_y p)\<^sup>2 < (1.05 * drop_radius p)\<^sup>2 \<and> sint l < sint (MAXlevel p))"
proof -
  have "(x - drop_x p) * (x - drop_x p) = (x - drop_x p)\<^sup>2"
    and "(y - drop_y p) * (y - drop_y p) = (y - drop_y p)\<^sup>2"
    by (simp_all only: power2_eq_square)
  moreover have "1.05 * 1.05 * drop_radius p * drop_radius p = (1.05 * drop_radius p)\<^sup>2"
    by (simp add: power2_eq_square)
  ultimately show ?thesis
    by (simp only: refine_cond_def drop_distance_squared_def Let_def)
qed

lemma drop_levelset_inside:
  "(0 < drop_levelset p x y) = ((x - drop_x p)\<^sup>2 + (y - drop_y p)\<^sup>2 < (drop_radius p)\<^sup>2)"
  by (simp add: drop_levelset_def drop_distance_squared_def power2_eq_square)

text \<open>
  Claim C4. The initialization event fires exactly once, at iteration 0 of a run. If
  the restart snapshot \<^verbatim>\<open><output_dir>/restart\<close> is restored, the result is the restored
  field and nothing else is done. Otherwise the mesh is refined where the squared
  distance from the drop centre is below \<open>(1.05 * drop_radius)\<^sup>2\<close> and the level is
  below \<open>MAXlevel\<close>, the volume fraction is set from the level-set function that is
  positive exactly inside the circle of radius \<open>drop_radius\<close> around
  \<open>(drop_x, drop_y)\<close>, and then in every cell \<open>u.x = impact_velocity * f\<close> (zero where
  \<open>f = 0\<close>) and \<open>u.y = 0\<close>, the volume fraction being left as the engine set it.
\<close>

theorem init_event_fork:
  "(run_times ts \<longrightarrow> init_firings ts = [0]) \<and>
   (restore E (output_dir p @ ''/restart'') = Some restored \<longrightarrow>
      init_event E p cells = (restored, [RestoredFromRestart])) \<and>
   (restore E (output_dir p @ ''/restart'') = None \<longrightarrow>
      fst (init_event E p cells) =
        map (set_velocity p) (fraction E (drop_levelset p) (refine E (refine_cond p) cells)) \<and>
      map cell_f (fst (init_event E p cells)) =
        map cell_f (fraction E (drop_levelset p) (refine E (refine_cond p) cells)) \<and>
      (\<forall>c \<in> set (fst (init_event E p cells)).
         cell_ux c = impact_velocity p * cell_f c \<and> cell_uy c = 0 \<and>
         (cell_f c = 0 \<longrightarrow> cell_ux c = 0))) \<and>
   (\<forall>x y l. refine_cond p x y l =
      ((x - drop_x p)\<^sup>2 + (y - drop_y p)\<^sup>2 < (1.05 * drop_radius p)\<^sup>2 \<and>
       sint l < sint (MAXlevel p))) \<and>
   (\<forall>x y. (0 < drop_levelset p x y) =
      ((x - drop_x p)\<^sup>2 + (y - drop_y p)\<^sup>2 < (drop_radius p)\<^sup>2))"
proof (intro conjI impI allI)
  assume "run_times ts"
  then show "init_firings ts = [0]"
    by (rule init_fires_once)
next
  assume "restore E (output_dir p @ ''/restart'') = Some restored"
  then show "init_event E p cells = (restored, [RestoredFromRestart])"
    by (simp add: init_event_def)
next
  assume none: "restore E (output_dir p @ ''/restart'') = None"
  then show fresh: "fst (init_event E p cells) =
      map (set_velocity p) (fraction E (drop_levelset p) (refine E (refine_cond p) cells))"
    by (simp add: init_event_def)
  show "map cell_f (fst (init_event E p cells)) =
      map cell_f (fraction E (drop_levelset p) (refine E (refine_cond p) cells))"
    by (simp add: fresh set_velocity_def)
  show "\<forall>c \<in> set (fst (init_event E p cells)).
      cell_ux c = impact_velocity p * cell_f c \<and> cell_uy c = 0 \<and>
      (cell_f c = 0 \<longrightarrow> cell_ux c = 0)"
    by (auto simp: fresh set_velocity_def)
next
  fix x y l
  show "refine_cond p x y l =
      ((x - drop_x p)\<^sup>2 + (y - drop_y p)\<^sup>2 < (1.05 * drop_radius p)\<^sup>2 \<and>
       sint l < sint (MAXlevel p))"
    by (rule refine_cond_eq)
next
  fix x y
  show "(0 < drop_levelset p x y) =
      ((x - drop_x p)\<^sup>2 + (y - drop_y p)\<^sup>2 < (drop_radius p)\<^sup>2)"
    by (rule drop_levelset_inside)
qed


text \<open>
  A run of three iterations; a restart with a snapshot; a fresh start on the
  demonstration field, where the default drop covers the second cell only.
\<close>

theorem init_event_fork_witness:
  "init_firings [0, 1 / 100, 2 / 100] = [0] \<and>
   init_event restart_engine (set_default_params zero_params) [] =
     (demo_cells, [RestoredFromRestart]) \<and>
   map cell_f (fst (init_event fresh_engine (set_default_params zero_params) demo_cells)) = [0, 1] \<and>
   map cell_ux (fst (init_event fresh_engine (set_default_params zero_params) demo_cells)) = [0, - 1] \<and>
   map cell_uy (fst (init_event fresh_engine (set_default_params zero_params) demo_cells)) = [0, 0]"
proof -
  let ?p = "set_default_params zero_params"
  have dir: "output_dir ?p = ''results''"
    by (simp add: set_default_params_def)
  have times: "run_times [0, 1 / 100, 2 / 100]"
    by (simp add: run_times_def)
  have snapshot: "restore restart_engine (output_dir ?p @ ''/restart'') = Some demo_cells"
    by (simp add: dir restart_engine_def fresh_engine_def)
  have none: "restore fresh_engine (output_dir ?p @ ''/restart'') = None"
    by (simp add: fresh_engine_def)
  from init_event_fork [of "[0, 1 / 100, 2 / 100]" restart_engine ?p demo_cells "[]"] times snapshot
  have "init_firings [0, 1 / 100, 2 / 100] = [0]"
    and "init_event restart_engine ?p [] = (demo_cells, [RestoredFromRestart])"
    by blast+
  moreover from init_event_fork [of "[]" fresh_engine ?p "[]" demo_cells] none
  have "fst (init_event fresh_engine ?p demo_cells) =
      map (set_velocity ?p)
        (fraction fresh_engine (drop_levelset ?p) (refine fresh_engine (refine_cond ?p) demo_cells))"
    by blast
  then have "map cell_f (fst (init_event fresh_engine ?p demo_cells)) = [0, 1]"
    and "map cell_ux (fst (init_event fresh_engine ?p demo_cells)) = [0, - 1]"
    and "map cell_uy (fst (init_event fresh_engine ?p demo_cells)) = [0, 0]"
    by (simp_all add: fresh_engine_def demo_cells_def set_velocity_def drop_levelset_def
        drop_distance_squared_def set_default_params_def)
  ultimately show ?thesis
    by simp
qed

end
